theory Spec2Isabelle
  imports Main "HOL-Library.Word"
begin

section \<open>The invitation conduit of parsec/backend/invite.py\<close>

text \<open>
  The development embeds \<^verbatim>\<open>BaseInviteComponent\<close> and the module-level tables of
  \<^verbatim>\<open>src/parsec/backend/invite.py\<close>. The abstract methods of the component
  (\<^verbatim>\<open>_conduit_talk\<close>, \<^verbatim>\<open>_conduit_listen\<close>, \<^verbatim>\<open>new_for_user\<close>,
  \<^verbatim>\<open>new_for_device\<close>, \<^verbatim>\<open>info\<close>) and the event bus it is given are parameters of the model:
  functions over an arbitrary world \<open>'w\<close>. Every call the component makes on them is
  also appended to a log, so that the order of the calls can be stated.
\<close>

subsection \<open>Module-level data\<close>

type_synonym OrganizationID = string
type_synonym UserID = string
type_synonym HumanHandle = string
type_synonym UUID = "128 word"
type_synonym Pendulum = int

text \<open>Python \<^verbatim>\<open>bytes\<close>: a list of bytes; \<^verbatim>\<open>b""\<close> is the empty list.\<close>

type_synonym bytes = "8 word list"

text \<open>
  Modelled from the spec: \<^verbatim>\<open>parsec.crypto.PublicKey\<close> is not under \<^verbatim>\<open>src/\<close>. Payloads
  carrying public keys are fixed-size opaque byte strings; the size is 32 bytes, and the
  constructor \<^verbatim>\<open>PublicKey(raw)\<close> raises \<^verbatim>\<open>ValueError\<close> for bytes of another length.
  \<^verbatim>\<open>encode()\<close> gives the 32 bytes back.
\<close>

typedef PublicKey = "{raw :: bytes. length raw = 32}"
  by (rule exI[of _ "replicate 32 0"]) simp


datatype exn = ValueError

definition PublicKey :: "bytes \<Rightarrow> exn + PublicKey" where
  "PublicKey raw = (if length raw = 32 then Inr (Abs_PublicKey raw) else Inl ValueError)"

datatype UserProfile = ADMIN | STANDARD | OUTSIDER

datatype InvitationType = USER | DEVICE

datatype InvitationStatus = IDLE | READY | DELETED

definition PEER_EVENT_MAX_WAIT :: nat where
  "PEER_EVENT_MAX_WAIT = 300"

datatype InvitationError =
    InvitationNotFoundError
  | InvitationAlreadyDeletedError
  | InvitationInvalidStateError

datatype ConduitState =
    STATE_1_WAIT_PEERS
  | STATE_2_1_CLAIMER_HASHED_NONCE
  | STATE_2_2_GREETER_NONCE
  | STATE_2_3_CLAIMER_NONCE
  | STATE_3_1_CLAIMER_TRUST
  | STATE_3_2_GREETER_TRUST
  | STATE_4_COMMUNICATE

text \<open>\<^verbatim>\<open>NEXT_CONDUIT_STATE\<close> is a dict: a partial map given by its seven items.\<close>

definition NEXT_CONDUIT_STATE :: "ConduitState \<rightharpoonup> ConduitState" where
  "NEXT_CONDUIT_STATE = map_of
     [(STATE_1_WAIT_PEERS, STATE_2_1_CLAIMER_HASHED_NONCE),
      (STATE_2_1_CLAIMER_HASHED_NONCE, STATE_2_2_GREETER_NONCE),
      (STATE_2_2_GREETER_NONCE, STATE_2_3_CLAIMER_NONCE),
      (STATE_2_3_CLAIMER_NONCE, STATE_3_1_CLAIMER_TRUST),
      (STATE_3_1_CLAIMER_TRUST, STATE_3_2_GREETER_TRUST),
      (STATE_3_2_GREETER_TRUST, STATE_4_COMMUNICATE),
      (STATE_4_COMMUNICATE, STATE_4_COMMUNICATE)]"

text \<open>
  \<^verbatim>\<open>ConduitListenCtx\<close>. The field names carry the prefix \<open>ctx_\<close>: the plain names are
  the parameter names of \<^verbatim>\<open>conduit_exchange\<close>.
\<close>

record ConduitListenCtx =
  ctx_organization_id :: OrganizationID
  ctx_greeter :: "UserID option"
  ctx_token :: UUID
  ctx_state :: ConduitState
  ctx_payload :: bytes
  ctx_peer_payload :: "bytes option"

definition is_greeter :: "ConduitListenCtx \<Rightarrow> bool" where
  "is_greeter self = (ctx_greeter self \<noteq> None)"

text \<open>
  \<^verbatim>\<open>Invitation = Union[UserInvitation, DeviceInvitation]\<close>. The arguments are, in the
  order of the attributes: greeter_user_id, greeter_human_handle, (claimer_email,) token,
  created_on, status.
\<close>

datatype Invitation =
    UserInvitation UserID "HumanHandle option" string UUID Pendulum InvitationStatus
  | DeviceInvitation UserID "HumanHandle option" UUID Pendulum InvitationStatus

fun invitation_token :: "Invitation \<Rightarrow> UUID" where
  "invitation_token (UserInvitation _ _ _ token _ _) = token"
| "invitation_token (DeviceInvitation _ _ token _ _) = token"

fun invitation_status :: "Invitation \<Rightarrow> InvitationStatus" where
  "invitation_status (UserInvitation _ _ _ _ _ status) = status"
| "invitation_status (DeviceInvitation _ _ _ _ status) = status"

subsection \<open>The collaborators of the component\<close>

text \<open>
  A filter of the event bus receives the event name and the keyword arguments of a
  \<^verbatim>\<open>conduit_updated\<close> event.
\<close>

type_synonym event_filter = "string \<Rightarrow> OrganizationID \<Rightarrow> UUID \<Rightarrow> bool"

text \<open>
  A \<open>'w backend\<close> gives the operations the component calls but does not define: the
  waiter of the event bus (\<^verbatim>\<open>waiter_on\<close> entering the \<^verbatim>\<open>with\<close> block,
  \<^verbatim>\<open>wait\<close>, \<^verbatim>\<open>clear\<close>, leaving the block) and the abstract methods, which raise
  \<^verbatim>\<open>NotImplementedError\<close> in the base class and are provided by a subclass. Each one
  is a function on the world \<open>'w\<close> (stores, event bus, the other requests in flight).
  \<open>wait_impl\<close> gives \<open>None\<close> when the awaited event never occurs: the coroutine stays
  suspended. The raised exceptions are the three named in the docstrings.
\<close>

record 'w backend =
  waiter_on_impl :: "string \<Rightarrow> event_filter \<Rightarrow> 'w \<Rightarrow> 'w"
  wait_impl :: "'w \<Rightarrow> 'w option"
  clear_impl :: "'w \<Rightarrow> 'w"
  exit_impl :: "'w \<Rightarrow> 'w"
  conduit_talk_impl ::
    "OrganizationID \<Rightarrow> UserID option \<Rightarrow> UUID \<Rightarrow> ConduitState \<Rightarrow> bytes \<Rightarrow> 'w
       \<Rightarrow> (InvitationError + ConduitListenCtx) \<times> 'w"
  conduit_listen_impl :: "ConduitListenCtx \<Rightarrow> 'w \<Rightarrow> (InvitationError + bytes option) \<times> 'w"
  new_for_user_impl :: "OrganizationID \<Rightarrow> UserID \<Rightarrow> string \<Rightarrow> 'w \<Rightarrow> Invitation \<times> 'w"
  new_for_device_impl :: "OrganizationID \<Rightarrow> UserID \<Rightarrow> 'w \<Rightarrow> Invitation \<times> 'w"
  info_impl :: "OrganizationID \<Rightarrow> UUID \<Rightarrow> 'w \<Rightarrow> (InvitationError + Invitation) \<times> 'w"

text \<open>The log: one entry per call on a collaborator, with what the call returned.\<close>

datatype call =
    WaiterOn string event_filter
  | ConduitTalk OrganizationID "UserID option" UUID ConduitState bytes
      "InvitationError + ConduitListenCtx"
  | WaiterWait
  | WaiterClear
  | ConduitListen ConduitListenCtx "InvitationError + bytes option"
  | WaiterExit
  | NewForUser OrganizationID UserID string Invitation
  | NewForDevice OrganizationID UserID Invitation
  | Info OrganizationID UUID "InvitationError + Invitation"

record 'w sys =
  world :: 'w
  calls :: "call list"

definition waiter_on :: "'w backend \<Rightarrow> string \<Rightarrow> event_filter \<Rightarrow> 'w sys \<Rightarrow> 'w sys" where
  "waiter_on self event flt s =
     \<lparr>world = waiter_on_impl self event flt (world s), calls = calls s @ [WaiterOn event flt]\<rparr>"

definition waiter_wait :: "'w backend \<Rightarrow> 'w sys \<Rightarrow> 'w sys option" where
  "waiter_wait self s =
     (case wait_impl self (world s) of
        None \<Rightarrow> None
      | Some w \<Rightarrow> Some \<lparr>world = w, calls = calls s @ [WaiterWait]\<rparr>)"

definition waiter_clear :: "'w backend \<Rightarrow> 'w sys \<Rightarrow> 'w sys" where
  "waiter_clear self s = \<lparr>world = clear_impl self (world s), calls = calls s @ [WaiterClear]\<rparr>"

definition waiter_exit :: "'w backend \<Rightarrow> 'w sys \<Rightarrow> 'w sys" where
  "waiter_exit self s = \<lparr>world = exit_impl self (world s), calls = calls s @ [WaiterExit]\<rparr>"

definition conduit_talk ::
  "'w backend \<Rightarrow> OrganizationID \<Rightarrow> UserID option \<Rightarrow> UUID \<Rightarrow> ConduitState \<Rightarrow> bytes \<Rightarrow> 'w sys
     \<Rightarrow> (InvitationError + ConduitListenCtx) \<times> 'w sys" where
  "conduit_talk self organization_id greeter token state payload s =
     (case conduit_talk_impl self organization_id greeter token state payload (world s) of
        (r, w) \<Rightarrow>
          (r, \<lparr>world = w,
               calls = calls s @ [ConduitTalk organization_id greeter token state payload r]\<rparr>))"

definition conduit_listen ::
  "'w backend \<Rightarrow> ConduitListenCtx \<Rightarrow> 'w sys \<Rightarrow> (InvitationError + bytes option) \<times> 'w sys" where
  "conduit_listen self ctx s =
     (case conduit_listen_impl self ctx (world s) of
        (r, w) \<Rightarrow> (r, \<lparr>world = w, calls = calls s @ [ConduitListen ctx r]\<rparr>))"

definition new_for_user ::
  "'w backend \<Rightarrow> OrganizationID \<Rightarrow> UserID \<Rightarrow> string \<Rightarrow> 'w sys \<Rightarrow> Invitation \<times> 'w sys" where
  "new_for_user self organization_id greeter_user_id claimer_email s =
     (case new_for_user_impl self organization_id greeter_user_id claimer_email (world s) of
        (invitation, w) \<Rightarrow>
          (invitation,
           \<lparr>world = w,
            calls = calls s @ [NewForUser organization_id greeter_user_id claimer_email invitation]\<rparr>))"

definition new_for_device ::
  "'w backend \<Rightarrow> OrganizationID \<Rightarrow> UserID \<Rightarrow> 'w sys \<Rightarrow> Invitation \<times> 'w sys" where
  "new_for_device self organization_id greeter_user_id s =
     (case new_for_device_impl self organization_id greeter_user_id (world s) of
        (invitation, w) \<Rightarrow>
          (invitation,
           \<lparr>world = w, calls = calls s @ [NewForDevice organization_id greeter_user_id invitation]\<rparr>))"

definition info ::
  "'w backend \<Rightarrow> OrganizationID \<Rightarrow> UUID \<Rightarrow> 'w sys \<Rightarrow> (InvitationError + Invitation) \<times> 'w sys" where
  "info self organization_id token s =
     (case info_impl self organization_id token (world s) of
        (r, w) \<Rightarrow> (r, \<lparr>world = w, calls = calls s @ [Info organization_id token r]\<rparr>))"

subsection \<open>conduit_exchange\<close>

definition conduit_updated_filter :: "OrganizationID \<Rightarrow> UUID \<Rightarrow> event_filter" where
  "conduit_updated_filter filter_organization_id filter_token event organization_id token =
     (organization_id = filter_organization_id \<and> token = filter_token)"

text \<open>
  The \<^verbatim>\<open>while True\<close> loop. It has no exit but \<^verbatim>\<open>return\<close> and an exception of
  \<^verbatim>\<open>_conduit_listen\<close>, so it is a partial function: \<open>None\<close> is "does not return".
\<close>

partial_function (option) conduit_exchange_loop ::
  "'w backend \<Rightarrow> ConduitListenCtx \<Rightarrow> 'w sys \<Rightarrow> ((InvitationError + bytes) \<times> 'w sys) option" where
  "conduit_exchange_loop self listen_ctx s =
     (case waiter_wait self s of
        None \<Rightarrow> None
      | Some s1 \<Rightarrow>
          (case conduit_listen self listen_ctx (waiter_clear self s1) of
             (Inl e, s3) \<Rightarrow> Some (Inl e, s3)
           | (Inr None, s3) \<Rightarrow> conduit_exchange_loop self listen_ctx s3
           | (Inr (Some peer_payload), s3) \<Rightarrow> Some (Inr peer_payload, s3)))"

text \<open>
  \<^verbatim>\<open>conduit_exchange\<close>: the result is \<open>Inl\<close> the exception raised or \<open>Inr\<close> the bytes
  returned. The \<^verbatim>\<open>with\<close> block is left on both.
\<close>

definition conduit_exchange ::
  "'w backend \<Rightarrow> OrganizationID \<Rightarrow> UserID option \<Rightarrow> UUID \<Rightarrow> ConduitState \<Rightarrow> bytes \<Rightarrow> 'w sys
     \<Rightarrow> ((InvitationError + bytes) \<times> 'w sys) option" where
  "conduit_exchange self organization_id greeter token state payload s =
     (let filter_organization_id = organization_id;
          filter_token = token;
          s0 = waiter_on self ''invite.conduit_updated''
                 (conduit_updated_filter filter_organization_id filter_token) s
      in case conduit_talk self organization_id greeter token state payload s0 of
           (Inl e, s1) \<Rightarrow> Some (Inl e, waiter_exit self s1)
         | (Inr listen_ctx, s1) \<Rightarrow>
             (case conduit_exchange_loop self listen_ctx s1 of
                None \<Rightarrow> None
              | Some (r, s2) \<Rightarrow> Some (r, waiter_exit self s2)))"

subsection \<open>Requests and replies\<close>

text \<open>
  The client context an \<^verbatim>\<open>@api\<close> handler receives: the one of an \<^verbatim>\<open>AUTHENTICATED\<close>
  handshake has the caller's organization, user and profile, the one of an
  \<^verbatim>\<open>INVITED\<close> handshake the organization and the invitation fetched during the
  handshake. Only the attributes the handlers read are fields.
\<close>

record AuthenticatedClientContext =
  auth_organization_id :: OrganizationID
  auth_user_id :: UserID
  auth_profile :: UserProfile

record InvitedClientContext =
  invited_organization_id :: OrganizationID
  invited_invitation :: Invitation

text \<open>
  A reply is a dict from keys to values, written as the list of its items. The serializers
  are imported from \<^verbatim>\<open>parsec.api.protocol\<close> and are not interpreted here:
  \<open>rep_dump ser d\<close> stands for \<^verbatim>\<open>ser.rep_dump(d)\<close>, \<open>Dict d\<close> for a dict returned as
  it is. A handler receives \<^verbatim>\<open>msg\<close> as loaded by \<^verbatim>\<open>req_load\<close>: the values of the keys
  it reads are its arguments \<open>msg_<key>\<close>.
\<close>

datatype field =
    Str string
  | Bytes bytes
  | Key PublicKey
  | Token UUID
  | Type InvitationType
  | User UserID
  | Handle "HumanHandle option"

type_synonym rep = "(string \<times> field) list"

datatype serializer =
    invite_new_serializer
  | invite_info_serializer
  | invite_1_claimer_wait_peer_serializer
  | invite_1_greeter_wait_peer_serializer
  | invite_2a_claimer_send_hashed_nonce_serializer
  | invite_2a_greeter_get_hashed_nonce_serializer
  | invite_2b_greeter_send_nonce_serializer
  | invite_2b_claimer_send_nonce_serializer
  | invite_3a_greeter_wait_peer_trust_serializer
  | invite_3a_claimer_signify_trust_serializer
  | invite_3b_claimer_wait_peer_trust_serializer
  | invite_3b_greeter_signify_trust_serializer
  | invite_4_greeter_communicate_serializer
  | invite_4_claimer_communicate_serializer

datatype reply = Dict rep | rep_dump serializer rep

fun reply_dict :: "reply \<Rightarrow> rep" where
  "reply_dict (Dict d) = d"
| "reply_dict (rep_dump ser d) = d"

subsection \<open>The conduit handlers\<close>



definition api_invite_2a_claimer_send_hashed_nonce ::
  "'w backend \<Rightarrow> InvitedClientContext \<Rightarrow> bytes \<Rightarrow> 'w sys
     \<Rightarrow> (reply \<times> 'w sys) option" where
  "api_invite_2a_claimer_send_hashed_nonce self client_ctx msg_claimer_hashed_nonce s =
     (case (case conduit_exchange self (invited_organization_id client_ctx) None
                   (invitation_token (invited_invitation client_ctx))
                   STATE_2_1_CLAIMER_HASHED_NONCE msg_claimer_hashed_nonce s of
              None \<Rightarrow> None
            | Some (Inl e, s1) \<Rightarrow> Some (Inl e, s1)
            | Some (Inr _, s1) \<Rightarrow>
                conduit_exchange self (invited_organization_id client_ctx) None
                  (invitation_token (invited_invitation client_ctx))
                  STATE_2_2_GREETER_NONCE [] s1) of
        None \<Rightarrow> None
      | Some (Inl InvitationNotFoundError, s') \<Rightarrow>
          Some (Dict [(''status'', Str ''not_found'')], s')
      | Some (Inl InvitationAlreadyDeletedError, s') \<Rightarrow>
          Some (Dict [(''status'', Str ''already_deleted'')], s')
      | Some (Inl InvitationInvalidStateError, s') \<Rightarrow>
          Some (Dict [(''status'', Str ''invalid_state'')], s')
      | Some (Inr greeter_nonce, s') \<Rightarrow>
          Some (rep_dump invite_2a_claimer_send_hashed_nonce_serializer
                  [(''status'', Str ''ok''),
                   (''greeter_nonce'', Bytes greeter_nonce)], s'))"


definition api_invite_2b_greeter_send_nonce ::
  "'w backend \<Rightarrow> AuthenticatedClientContext \<Rightarrow> UUID \<Rightarrow> bytes \<Rightarrow> 'w sys
     \<Rightarrow> (reply \<times> 'w sys) option" where
  "api_invite_2b_greeter_send_nonce self client_ctx msg_token msg_greeter_nonce s =
     (case (case conduit_exchange self (auth_organization_id client_ctx) (Some (auth_user_id client_ctx))
                   msg_token
                   STATE_2_2_GREETER_NONCE msg_greeter_nonce s of
              None \<Rightarrow> None
            | Some (Inl e, s1) \<Rightarrow> Some (Inl e, s1)
            | Some (Inr _, s1) \<Rightarrow>
                conduit_exchange self (auth_organization_id client_ctx) (Some (auth_user_id client_ctx))
                  msg_token
                  STATE_2_3_CLAIMER_NONCE [] s1) of
        None \<Rightarrow> None
      | Some (Inl InvitationNotFoundError, s') \<Rightarrow>
          Some (Dict [(''status'', Str ''not_found'')], s')
      | Some (Inl InvitationAlreadyDeletedError, s') \<Rightarrow>
          Some (Dict [(''status'', Str ''already_deleted'')], s')
      | Some (Inl InvitationInvalidStateError, s') \<Rightarrow>
          Some (Dict [(''status'', Str ''invalid_state'')], s')
      | Some (Inr claimer_nonce, s') \<Rightarrow>
          Some (rep_dump invite_2b_greeter_send_nonce_serializer
                  [(''status'', Str ''ok''),
                   (''claimer_nonce'', Bytes claimer_nonce)], s'))"








subsection \<open>invite_new and invite_info\<close>

definition api_invite_new ::
  "'w backend \<Rightarrow> AuthenticatedClientContext \<Rightarrow> InvitationType \<Rightarrow> string \<Rightarrow> bool \<Rightarrow> 'w sys
     \<Rightarrow> reply \<times> 'w sys" where
  "api_invite_new self client_ctx msg_type msg_claimer_email msg_send_email s =
     (if msg_type = USER then
        if auth_profile client_ctx \<noteq> ADMIN then
          (rep_dump invite_new_serializer [(''status'', Str ''not_allowed'')], s)
        else if msg_send_email then
          (rep_dump invite_new_serializer [(''status'', Str ''not_implemented'')], s)
        else
          (case new_for_user self (auth_organization_id client_ctx) (auth_user_id client_ctx)
                  msg_claimer_email s of
             (invitation, s') \<Rightarrow>
               (rep_dump invite_new_serializer
                  [(''status'', Str ''ok''), (''token'', Token (invitation_token invitation))], s'))
      else
        (case new_for_device self (auth_organization_id client_ctx) (auth_user_id client_ctx) s of
           (invitation, s') \<Rightarrow>
             (rep_dump invite_new_serializer
                [(''status'', Str ''ok''), (''token'', Token (invitation_token invitation))], s')))"

text \<open>
  \<^verbatim>\<open>api_invite_info\<close> reads \<^verbatim>\<open>client_ctx.invitation\<close> and calls nothing on the
  component: the state is returned as it was.
\<close>

definition api_invite_info ::
  "'w backend \<Rightarrow> InvitedClientContext \<Rightarrow> 'w sys \<Rightarrow> reply \<times> 'w sys" where
  "api_invite_info self client_ctx s =
     (let invitation = invited_invitation client_ctx in
      (rep_dump invite_info_serializer
         (case invitation of
            UserInvitation greeter_user_id greeter_human_handle claimer_email _ _ _ \<Rightarrow>
              [(''type'', Type USER),
               (''claimer_email'', Str claimer_email),
               (''greeter_user_id'', User greeter_user_id),
               (''greeter_human_handle'', Handle greeter_human_handle)]
          | DeviceInvitation greeter_user_id greeter_human_handle _ _ _ \<Rightarrow>
              [(''type'', Type DEVICE),
               (''greeter_user_id'', User greeter_user_id),
               (''greeter_human_handle'', Handle greeter_human_handle)]), s))"

subsection \<open>The claimers ready\<close>

text \<open>
  \<^verbatim>\<open>_claimers_ready\<close> is a \<^verbatim>\<open>defaultdict(set)\<close>: reading a missing key gives the empty
  set and stores it under the key.
\<close>

type_synonym claimers_ready = "OrganizationID \<rightharpoonup> UUID set"

definition getitem :: "claimers_ready \<Rightarrow> OrganizationID \<Rightarrow> UUID set" where
  "getitem d k = (case d k of None \<Rightarrow> {} | Some v \<Rightarrow> v)"

definition on_status_changed ::
  "claimers_ready \<Rightarrow> string \<Rightarrow> OrganizationID \<Rightarrow> UserID \<Rightarrow> UUID \<Rightarrow> InvitationStatus
     \<Rightarrow> claimers_ready" where
  "on_status_changed claimers event organization_id greeter token status =
     (if status = READY then
        claimers(organization_id \<mapsto> insert token (getitem claimers organization_id))
      else
        claimers(organization_id \<mapsto> getitem claimers organization_id - {token}))"

text \<open>
  The callback is connected to \<^verbatim>\<open>invite.status_changed\<close>: the bus calls it once per
  event, in order, with the event's keyword arguments.
\<close>

type_synonym status_changed = "OrganizationID \<times> UserID \<times> UUID \<times> InvitationStatus"

fun process_events :: "claimers_ready \<Rightarrow> status_changed list \<Rightarrow> claimers_ready" where
  "process_events claimers [] = claimers"
| "process_events claimers ((organization_id, greeter, token, status) # events) =
     process_events
       (on_status_changed claimers ''invite.status_changed'' organization_id greeter token status)
       events"

subsection \<open>Descriptions used in the statements\<close>

text \<open>One turn of the waiting loop, as it appears in the log.\<close>

definition listen_round :: "ConduitListenCtx \<Rightarrow> InvitationError + bytes option \<Rightarrow> call list" where
  "listen_round ctx r = [WaiterWait, WaiterClear, ConduitListen ctx r]"

text \<open>
  \<open>idle_turns self ctx n w\<close>: the world after \<open>n\<close> turns of the waiting loop started in
  the world \<open>w\<close>, when in each of them the wait returns and the listen, made after the
  clear, gives \<^verbatim>\<open>None\<close>; \<open>None\<close> when one of the \<open>n\<close> waits does not return or one of
  the listens gives something else.
\<close>

fun idle_turns :: "'w backend \<Rightarrow> ConduitListenCtx \<Rightarrow> nat \<Rightarrow> 'w \<Rightarrow> 'w option" where
  "idle_turns self ctx 0 w = Some w"
| "idle_turns self ctx (Suc n) w =
     (case wait_impl self w of
        None \<Rightarrow> None
      | Some w1 \<Rightarrow>
          (case conduit_listen_impl self ctx (clear_impl self w1) of
             (Inr None, w2) \<Rightarrow> idle_turns self ctx n w2
           | (_, w2) \<Rightarrow> None))"

text \<open>The wire status of an engine error, as the specification's table has it.\<close>

fun wire_status :: "InvitationError \<Rightarrow> string" where
  "wire_status InvitationNotFoundError = ''not_found''"
| "wire_status InvitationAlreadyDeletedError = ''already_deleted''"
| "wire_status InvitationInvalidStateError = ''invalid_state''"



text \<open>
  The status of the most recent event of the sequence that is about the organization and
  the token, if there is one.
\<close>

fun latest_status ::
  "OrganizationID \<Rightarrow> UUID \<Rightarrow> status_changed list \<Rightarrow> InvitationStatus option" where
  "latest_status org tok [] = None"
| "latest_status org tok ((organization_id, greeter, token, status) # events) =
     (case latest_status org tok events of
        Some later \<Rightarrow> Some later
      | None \<Rightarrow> if organization_id = org \<and> token = tok then Some status else None)"

subsection \<open>Two backends to run the component on\<close>

text \<open>
  The world of \<open>scripted_backend peer\<close> is the list of the outcomes the coming listens
  will have. A wait returns as long as an outcome is left. The talk raises for the token
  0 and otherwise returns a context whose \<^verbatim>\<open>peer_payload\<close> is \<open>peer\<close>.
\<close>

definition scripted_backend :: "bytes option \<Rightarrow> (InvitationError + bytes option) list backend" where
  "scripted_backend peer =
     \<lparr>waiter_on_impl = (\<lambda>event flt w. w),
      wait_impl = (\<lambda>w. if w = [] then None else Some w),
      clear_impl = (\<lambda>w. w),
      exit_impl = (\<lambda>w. w),
      conduit_talk_impl = (\<lambda>organization_id greeter token state payload w.
        if token = 0 then (Inl InvitationNotFoundError, w)
        else (Inr \<lparr>ctx_organization_id = organization_id, ctx_greeter = greeter,
                   ctx_token = token, ctx_state = state, ctx_payload = payload,
                   ctx_peer_payload = peer\<rparr>, w)),
      conduit_listen_impl = (\<lambda>ctx w. case w of [] \<Rightarrow> (Inr None, []) | r # rest \<Rightarrow> (r, rest)),
      new_for_user_impl = (\<lambda>organization_id greeter_user_id claimer_email w.
        (UserInvitation greeter_user_id None claimer_email 7 0 IDLE, w)),
      new_for_device_impl = (\<lambda>organization_id greeter_user_id w.
        (DeviceInvitation greeter_user_id None 8 0 IDLE, w)),
      info_impl = (\<lambda>organization_id token w. (Inl InvitationAlreadyDeletedError, w))\<rparr>"

text \<open>
  In \<open>silent_backend\<close> the peer never contributes: every wait returns (the world counts
  them) and every listen gives \<^verbatim>\<open>None\<close>.
\<close>

definition silent_backend :: "nat backend" where
  "silent_backend =
     \<lparr>waiter_on_impl = (\<lambda>event flt w. w),
      wait_impl = (\<lambda>w. Some (Suc w)),
      clear_impl = (\<lambda>w. w),
      exit_impl = (\<lambda>w. w),
      conduit_talk_impl = (\<lambda>organization_id greeter token state payload w.
        (Inr \<lparr>ctx_organization_id = organization_id, ctx_greeter = greeter,
              ctx_token = token, ctx_state = state, ctx_payload = payload,
              ctx_peer_payload = None\<rparr>, w)),
      conduit_listen_impl = (\<lambda>ctx w. (Inr None, w)),
      new_for_user_impl = (\<lambda>organization_id greeter_user_id claimer_email w.
        (UserInvitation greeter_user_id None claimer_email 7 0 IDLE, w)),
      new_for_device_impl = (\<lambda>organization_id greeter_user_id w.
        (DeviceInvitation greeter_user_id None 8 0 IDLE, w)),
      info_impl = (\<lambda>organization_id token w. (Inl InvitationNotFoundError, w))\<rparr>"

section \<open>Theorems\<close>

subsection \<open>When an exchange returns, and what it has done\<close>

lemmas backend_ops =
  waiter_on_def waiter_wait_def waiter_clear_def waiter_exit_def conduit_talk_def
  conduit_listen_def

text \<open>
  The loop returns as soon as a listen that follows a wake-up does not give \<^verbatim>\<open>None\<close>:
  after \<open>n\<close> idle turns, a wake-up and a listen whose outcome is \<open>r\<close>, it returns \<open>r\<close>.
\<close>

lemma conduit_exchange_loop_returns:
  assumes "idle_turns self ctx n (world s) = Some w2"
    and "wait_impl self w2 = Some w3"
    and "conduit_listen_impl self ctx (clear_impl self w3) = (map_sum id Some r, w4)"
  shows "conduit_exchange_loop self ctx s =
           Some (r, \<lparr>world = w4,
                     calls = calls s @ concat (replicate n (listen_round ctx (Inr None)))
                               @ listen_round ctx (map_sum id Some r)\<rparr>)"
  using assms
proof (induction n arbitrary: s)
  case 0
  then show ?case
    by (cases r) (simp_all add: conduit_exchange_loop.simps[of self ctx s] backend_ops listen_round_def)
next
  case (Suc n)
  from Suc.prems(1) obtain w1 w' where w: "wait_impl self (world s) = Some w1"
    and l: "conduit_listen_impl self ctx (clear_impl self w1) = (Inr None, w')"
    and rest: "idle_turns self ctx n w' = Some w2"
    by (auto split: option.splits prod.splits sum.splits)
  define s3 where "s3 = \<lparr>world = w', calls = calls s @ listen_round ctx (Inr None)\<rparr>"
  have step: "conduit_exchange_loop self ctx s = conduit_exchange_loop self ctx s3"
    using w l by (simp add: conduit_exchange_loop.simps[of self ctx s] backend_ops listen_round_def s3_def)
  from rest have "idle_turns self ctx n (world s3) = Some w2" by (simp add: s3_def)
  from Suc.IH[OF this Suc.prems(2) Suc.prems(3)] step show ?case
    by (simp add: s3_def)
qed

text \<open>Conversely, a loop that has returned has run in this way.\<close>

lemma conduit_exchange_loop_returned:
  assumes "conduit_exchange_loop self ctx s = Some y"
  shows "\<exists>n w2 w3 w4.
           idle_turns self ctx n (world s) = Some w2
           \<and> wait_impl self w2 = Some w3
           \<and> conduit_listen_impl self ctx (clear_impl self w3) = (map_sum id Some (fst y), w4)
           \<and> snd y = \<lparr>world = w4,
                        calls = calls s @ concat (replicate n (listen_round ctx (Inr None)))
                                  @ listen_round ctx (map_sum id Some (fst y))\<rparr>"
proof (induction self ctx s y rule: conduit_exchange_loop.raw_induct)
  case (1 loop self ctx s y)
  from "1.hyps" obtain w1 where w: "wait_impl self (world s) = Some w1"
    by (auto simp: waiter_wait_def split: option.splits)
  obtain r w' where l: "conduit_listen_impl self ctx (clear_impl self w1) = (r, w')"
    by (cases "conduit_listen_impl self ctx (clear_impl self w1)")
  define s3 where "s3 = \<lparr>world = w', calls = calls s @ listen_round ctx r\<rparr>"
  have zero: "idle_turns self ctx 0 (world s) = Some (world s)" by simp
  show ?case
  proof (cases "r = Inr None")
    case True
    with "1.hyps" w l have "loop self ctx s3 = Some y"
      by (simp add: backend_ops s3_def listen_round_def)
    from "1.IH"[OF this] obtain n w2 w3 w4 where
      i0: "idle_turns self ctx n (world s3) = Some w2"
      and rest: "wait_impl self w2 = Some w3"
        "conduit_listen_impl self ctx (clear_impl self w3) = (map_sum id Some (fst y), w4)"
        "snd y = \<lparr>world = w4,
                        calls = calls s3 @ concat (replicate n (listen_round ctx (Inr None)))
                                  @ listen_round ctx (map_sum id Some (fst y))\<rparr>"
      by blast
    from i0 have i: "idle_turns self ctx n w' = Some w2" by (simp add: s3_def)
    from i w l True have "idle_turns self ctx (Suc n) (world s) = Some w2" by simp
    moreover from rest(3) True have "snd y = \<lparr>world = w4,
                        calls = calls s @ concat (replicate (Suc n) (listen_round ctx (Inr None)))
                                  @ listen_round ctx (map_sum id Some (fst y))\<rparr>"
      by (simp add: s3_def)
    ultimately show ?thesis using rest(1,2) by blast
  next
    case False
    with "1.hyps" w l have y: "r = map_sum id Some (fst y)" "snd y = s3"
      by (auto simp: backend_ops s3_def listen_round_def split: sum.splits option.splits)
    then have "snd y = \<lparr>world = w',
                        calls = calls s @ concat (replicate 0 (listen_round ctx (Inr None)))
                                  @ listen_round ctx (map_sum id Some (fst y))\<rparr>"
      by (simp add: s3_def)
    with zero w l y(1) show ?thesis by blast
  qed
qed (rule assms)

lemma conduit_exchange_returns_iff:
  "(conduit_exchange self organization_id greeter token state payload s = Some (r, s')) =
     (case conduit_talk_impl self organization_id greeter token state payload
             (waiter_on_impl self ''invite.conduit_updated''
                (conduit_updated_filter organization_id token) (world s)) of
        (Inl e, w1) \<Rightarrow>
          r = Inl e
          \<and> s' = \<lparr>world = exit_impl self w1,
                   calls = calls s
                     @ [WaiterOn ''invite.conduit_updated''
                          (conduit_updated_filter organization_id token),
                        ConduitTalk organization_id greeter token state payload (Inl e),
                        WaiterExit]\<rparr>
      | (Inr ctx, w1) \<Rightarrow>
          (\<exists>n w2 w3 w4.
             idle_turns self ctx n w1 = Some w2
             \<and> wait_impl self w2 = Some w3
             \<and> conduit_listen_impl self ctx (clear_impl self w3) = (map_sum id Some r, w4)
             \<and> s' = \<lparr>world = exit_impl self w4,
                      calls = calls s
                        @ [WaiterOn ''invite.conduit_updated''
                             (conduit_updated_filter organization_id token),
                           ConduitTalk organization_id greeter token state payload (Inr ctx)]
                        @ concat (replicate n
                                    [WaiterWait, WaiterClear, ConduitListen ctx (Inr None)])
                        @ [WaiterWait, WaiterClear, ConduitListen ctx (map_sum id Some r),
                           WaiterExit]\<rparr>))"
proof -
  obtain talked w1 where ti: "conduit_talk_impl self organization_id greeter token state payload
             (waiter_on_impl self ''invite.conduit_updated''
                (conduit_updated_filter organization_id token) (world s)) = (talked, w1)"
    by (cases "conduit_talk_impl self organization_id greeter token state payload
             (waiter_on_impl self ''invite.conduit_updated''
                (conduit_updated_filter organization_id token) (world s))")
  define s1 where "s1 = \<lparr>world = w1, calls = calls s
     @ [WaiterOn ''invite.conduit_updated'' (conduit_updated_filter organization_id token),
        ConduitTalk organization_id greeter token state payload talked]\<rparr>"
  have t: "conduit_talk self organization_id greeter token state payload
             (waiter_on self ''invite.conduit_updated''
                (conduit_updated_filter organization_id token) s) = (talked, s1)"
    using ti by (simp add: s1_def conduit_talk_def waiter_on_def)
  show ?thesis
  proof (cases talked)
    case (Inl e)
    with t ti show ?thesis
      by (auto simp: conduit_exchange_def Let_def waiter_exit_def s1_def)
  next
    case (Inr ctx)
    have ex: "conduit_exchange self organization_id greeter token state payload s =
            (case conduit_exchange_loop self ctx s1 of
               None \<Rightarrow> None
             | Some (r, s2) \<Rightarrow> Some (r, waiter_exit self s2))"
      using t Inr by (simp add: conduit_exchange_def Let_def)
    show ?thesis
    proof
      assume run: "conduit_exchange self organization_id greeter token state payload s = Some (r, s')"
      with ex obtain s2 where l: "conduit_exchange_loop self ctx s1 = Some (r, s2)"
        and e: "s' = waiter_exit self s2"
        by (auto split: option.splits)
      from conduit_exchange_loop_returned[OF l] obtain n w2 w3 w4 where
        "idle_turns self ctx n (world s1) = Some w2"
        "wait_impl self w2 = Some w3"
        "conduit_listen_impl self ctx (clear_impl self w3) = (map_sum id Some r, w4)"
        "s2 = \<lparr>world = w4,
                calls = calls s1 @ concat (replicate n (listen_round ctx (Inr None)))
                          @ listen_round ctx (map_sum id Some r)\<rparr>"
        by auto
      with e Inr have "idle_turns self ctx n w1 = Some w2
             \<and> wait_impl self w2 = Some w3
             \<and> conduit_listen_impl self ctx (clear_impl self w3) = (map_sum id Some r, w4)
             \<and> s' = \<lparr>world = exit_impl self w4,
                      calls = calls s
                        @ [WaiterOn ''invite.conduit_updated''
                             (conduit_updated_filter organization_id token),
                           ConduitTalk organization_id greeter token state payload (Inr ctx)]
                        @ concat (replicate n
                                    [WaiterWait, WaiterClear, ConduitListen ctx (Inr None)])
                        @ [WaiterWait, WaiterClear, ConduitListen ctx (map_sum id Some r),
                           WaiterExit]\<rparr>"
        by (simp add: s1_def waiter_exit_def listen_round_def)
      then show "case conduit_talk_impl self organization_id greeter token state payload
             (waiter_on_impl self ''invite.conduit_updated''
                (conduit_updated_filter organization_id token) (world s)) of
        (Inl e, w1) \<Rightarrow>
          r = Inl e
          \<and> s' = \<lparr>world = exit_impl self w1,
                   calls = calls s
                     @ [WaiterOn ''invite.conduit_updated''
                          (conduit_updated_filter organization_id token),
                        ConduitTalk organization_id greeter token state payload (Inl e),
                        WaiterExit]\<rparr>
      | (Inr ctx, w1) \<Rightarrow>
          (\<exists>n w2 w3 w4.
             idle_turns self ctx n w1 = Some w2
             \<and> wait_impl self w2 = Some w3
             \<and> conduit_listen_impl self ctx (clear_impl self w3) = (map_sum id Some r, w4)
             \<and> s' = \<lparr>world = exit_impl self w4,
                      calls = calls s
                        @ [WaiterOn ''invite.conduit_updated''
                             (conduit_updated_filter organization_id token),
                           ConduitTalk organization_id greeter token state payload (Inr ctx)]
                        @ concat (replicate n
                                    [WaiterWait, WaiterClear, ConduitListen ctx (Inr None)])
                        @ [WaiterWait, WaiterClear, ConduitListen ctx (map_sum id Some r),
                           WaiterExit]\<rparr>)"
        unfolding ti Inr by (simp only: prod.case sum.case) blast
    next
      assume "case conduit_talk_impl self organization_id greeter token state payload
             (waiter_on_impl self ''invite.conduit_updated''
                (conduit_updated_filter organization_id token) (world s)) of
        (Inl e, w1) \<Rightarrow>
          r = Inl e
          \<and> s' = \<lparr>world = exit_impl self w1,
                   calls = calls s
                     @ [WaiterOn ''invite.conduit_updated''
                          (conduit_updated_filter organization_id token),
                        ConduitTalk organization_id greeter token state payload (Inl e),
                        WaiterExit]\<rparr>
      | (Inr ctx, w1) \<Rightarrow>
          (\<exists>n w2 w3 w4.
             idle_turns self ctx n w1 = Some w2
             \<and> wait_impl self w2 = Some w3
             \<and> conduit_listen_impl self ctx (clear_impl self w3) = (map_sum id Some r, w4)
             \<and> s' = \<lparr>world = exit_impl self w4,
                      calls = calls s
                        @ [WaiterOn ''invite.conduit_updated''
                             (conduit_updated_filter organization_id token),
                           ConduitTalk organization_id greeter token state payload (Inr ctx)]
                        @ concat (replicate n
                                    [WaiterWait, WaiterClear, ConduitListen ctx (Inr None)])
                        @ [WaiterWait, WaiterClear, ConduitListen ctx (map_sum id Some r),
                           WaiterExit]\<rparr>)"
      then obtain n w2 w3 w4 where
        i: "idle_turns self ctx n w1 = Some w2"
        and w: "wait_impl self w2 = Some w3"
        and l: "conduit_listen_impl self ctx (clear_impl self w3) = (map_sum id Some r, w4)"
        and s': "s' = \<lparr>world = exit_impl self w4,
                      calls = calls s
                        @ [WaiterOn ''invite.conduit_updated''
                             (conduit_updated_filter organization_id token),
                           ConduitTalk organization_id greeter token state payload (Inr ctx)]
                        @ concat (replicate n
                                    [WaiterWait, WaiterClear, ConduitListen ctx (Inr None)])
                        @ [WaiterWait, WaiterClear, ConduitListen ctx (map_sum id Some r),
                           WaiterExit]\<rparr>"
        unfolding ti Inr by (simp only: prod.case sum.case) blast
      from i have "idle_turns self ctx n (world s1) = Some w2" by (simp add: s1_def)
      from conduit_exchange_loop_returns[OF this w l] ex s' Inr
      show "conduit_exchange self organization_id greeter token state payload s = Some (r, s')"
        by (simp add: s1_def waiter_exit_def listen_round_def)
    qed
  qed
qed

lemma conduit_exchange_loop_silent:
  assumes "conduit_exchange_loop self ctx s = Some y"
  shows "\<not> (I (world s) \<and> (\<forall>w w'. I w \<longrightarrow> wait_impl self w = Some w' \<longrightarrow>
            fst (conduit_listen_impl self ctx (clear_impl self w')) = Inr None
            \<and> I (snd (conduit_listen_impl self ctx (clear_impl self w')))))"
proof (induction self ctx s y rule: conduit_exchange_loop.raw_induct)
  case (1 loop self ctx s y)
  show ?case
  proof
    assume a: "I (world s) \<and> (\<forall>w w'. I w \<longrightarrow> wait_impl self w = Some w' \<longrightarrow>
            fst (conduit_listen_impl self ctx (clear_impl self w')) = Inr None
            \<and> I (snd (conduit_listen_impl self ctx (clear_impl self w'))))"
    from "1.hyps" obtain w' where w: "wait_impl self (world s) = Some w'"
      by (auto simp: waiter_wait_def split: option.splits)
    obtain r w3 where l: "conduit_listen_impl self ctx (clear_impl self w') = (r, w3)"
      by (cases "conduit_listen_impl self ctx (clear_impl self w')")
    from a w l have r: "r = Inr None" and i: "I w3" by fastforce+
    define s3 where "s3 = \<lparr>world = w3, calls = calls s @ [WaiterWait, WaiterClear, ConduitListen ctx (Inr None)]\<rparr>"
    from "1.hyps" w l r have "loop self ctx s3 = Some y"
      by (simp add: backend_ops s3_def)
    from "1.IH"[OF this] a i show False by (simp add: s3_def)
  qed
qed (rule assms)

lemma conduit_updated_filter_iff:
  "conduit_updated_filter filter_organization_id filter_token event org tok
     = (org = filter_organization_id \<and> tok = filter_token)"
  by (simp add: conduit_updated_filter_def)

text \<open>
  C1. The filter built by \<^verbatim>\<open>conduit_exchange\<close> accepts exactly the events whose
  organization and token are those of the call. The talk is made in the world in which
  the waiter on \<^verbatim>\<open>invite.conduit_updated\<close> with that filter is registered. If the talk
  raises, the call raises the same after leaving the \<^verbatim>\<open>with\<close> block. If the talk returns
  a context, the call ends with the outcome \<open>r\<close> if and only if, for some \<open>n\<close>, the
  first \<open>n\<close> turns wait, clear and listen with \<^verbatim>\<open>None\<close> for answer, and the next turn
  waits, clears and listens with \<open>r\<close> for answer, \<open>r\<close> being a payload or an exception:
  the call returns the first payload that a listen gives, its log is that of these calls
  in this order, and its world is the one they leave.
\<close>

theorem conduit_exchange_subscribes_talks_then_listens:
  "(\<forall>event org tok.
      conduit_updated_filter organization_id token event org tok
        = (org = organization_id \<and> tok = token))
   \<and> (conduit_exchange self organization_id greeter token state payload s = Some (r, s')) =
     (case conduit_talk_impl self organization_id greeter token state payload
             (waiter_on_impl self ''invite.conduit_updated''
                (conduit_updated_filter organization_id token) (world s)) of
        (Inl e, w1) \<Rightarrow>
          r = Inl e
          \<and> s' = \<lparr>world = exit_impl self w1,
                   calls = calls s
                     @ [WaiterOn ''invite.conduit_updated''
                          (conduit_updated_filter organization_id token),
                        ConduitTalk organization_id greeter token state payload (Inl e),
                        WaiterExit]\<rparr>
      | (Inr ctx, w1) \<Rightarrow>
          (\<exists>n w2 w3 w4.
             idle_turns self ctx n w1 = Some w2
             \<and> wait_impl self w2 = Some w3
             \<and> conduit_listen_impl self ctx (clear_impl self w3) = (map_sum id Some r, w4)
             \<and> s' = \<lparr>world = exit_impl self w4,
                      calls = calls s
                        @ [WaiterOn ''invite.conduit_updated''
                             (conduit_updated_filter organization_id token),
                           ConduitTalk organization_id greeter token state payload (Inr ctx)]
                        @ concat (replicate n
                                    [WaiterWait, WaiterClear, ConduitListen ctx (Inr None)])
                        @ [WaiterWait, WaiterClear, ConduitListen ctx (map_sum id Some r),
                           WaiterExit]\<rparr>))"
  using conduit_exchange_returns_iff[of self organization_id greeter token state payload s r s']
    conduit_updated_filter_iff
  by blast

text \<open>
  On the scripted backend: the peer contributes at the third wake-up; and a talk that
  raises.
\<close>

theorem conduit_exchange_subscribes_talks_then_listens_witness:
  "conduit_exchange (scripted_backend None) ''org'' None 5 STATE_1_WAIT_PEERS [1]
     \<lparr>world = [Inr None, Inr None, Inr (Some [42])], calls = []\<rparr>
   = Some (Inr [42], \<lparr>world = [], calls =
       [WaiterOn ''invite.conduit_updated'' (conduit_updated_filter ''org'' 5),
        ConduitTalk ''org'' None 5 STATE_1_WAIT_PEERS [1]
          (Inr \<lparr>ctx_organization_id = ''org'', ctx_greeter = None, ctx_token = 5,
                ctx_state = STATE_1_WAIT_PEERS, ctx_payload = [1], ctx_peer_payload = None\<rparr>),
        WaiterWait, WaiterClear,
        ConduitListen
          \<lparr>ctx_organization_id = ''org'', ctx_greeter = None, ctx_token = 5,
           ctx_state = STATE_1_WAIT_PEERS, ctx_payload = [1], ctx_peer_payload = None\<rparr>
          (Inr None),
        WaiterWait, WaiterClear,
        ConduitListen
          \<lparr>ctx_organization_id = ''org'', ctx_greeter = None, ctx_token = 5,
           ctx_state = STATE_1_WAIT_PEERS, ctx_payload = [1], ctx_peer_payload = None\<rparr>
          (Inr None),
        WaiterWait, WaiterClear,
        ConduitListen
          \<lparr>ctx_organization_id = ''org'', ctx_greeter = None, ctx_token = 5,
           ctx_state = STATE_1_WAIT_PEERS, ctx_payload = [1], ctx_peer_payload = None\<rparr>
          (Inr (Some [42])),
        WaiterExit]\<rparr>)
   \<and> conduit_exchange (scripted_backend None) ''org'' None 0 STATE_1_WAIT_PEERS [1]
     \<lparr>world = [Inr (Some [42])], calls = []\<rparr>
   = Some (Inl InvitationNotFoundError, \<lparr>world = [Inr (Some [42])], calls =
       [WaiterOn ''invite.conduit_updated'' (conduit_updated_filter ''org'' 0),
        ConduitTalk ''org'' None 0 STATE_1_WAIT_PEERS [1] (Inl InvitationNotFoundError),
        WaiterExit]\<rparr>)"
proof (intro conjI)
  show "conduit_exchange (scripted_backend None) ''org'' None 5 STATE_1_WAIT_PEERS [1]
     \<lparr>world = [Inr None, Inr None, Inr (Some [42])], calls = []\<rparr>
   = Some (Inr [42], \<lparr>world = [], calls =
       [WaiterOn ''invite.conduit_updated'' (conduit_updated_filter ''org'' 5),
        ConduitTalk ''org'' None 5 STATE_1_WAIT_PEERS [1]
          (Inr \<lparr>ctx_organization_id = ''org'', ctx_greeter = None, ctx_token = 5,
                ctx_state = STATE_1_WAIT_PEERS, ctx_payload = [1], ctx_peer_payload = None\<rparr>),
        WaiterWait, WaiterClear,
        ConduitListen
          \<lparr>ctx_organization_id = ''org'', ctx_greeter = None, ctx_token = 5,
           ctx_state = STATE_1_WAIT_PEERS, ctx_payload = [1], ctx_peer_payload = None\<rparr>
          (Inr None),
        WaiterWait, WaiterClear,
        ConduitListen
          \<lparr>ctx_organization_id = ''org'', ctx_greeter = None, ctx_token = 5,
           ctx_state = STATE_1_WAIT_PEERS, ctx_payload = [1], ctx_peer_payload = None\<rparr>
          (Inr None),
        WaiterWait, WaiterClear,
        ConduitListen
          \<lparr>ctx_organization_id = ''org'', ctx_greeter = None, ctx_token = 5,
           ctx_state = STATE_1_WAIT_PEERS, ctx_payload = [1], ctx_peer_payload = None\<rparr>
          (Inr (Some [42])),
        WaiterExit]\<rparr>)"
    apply (subst conduit_exchange_subscribes_talks_then_listens[THEN conjunct2])
    apply (simp add: scripted_backend_def)
    apply (rule exI[of _ "Suc (Suc 0)"])
    apply (simp add: scripted_backend_def)
    apply (rule exI[of _ "[Inr (Some [42])]"])
    apply simp
    done
next
  show "conduit_exchange (scripted_backend None) ''org'' None 0 STATE_1_WAIT_PEERS [1]
     \<lparr>world = [Inr (Some [42])], calls = []\<rparr>
   = Some (Inl InvitationNotFoundError, \<lparr>world = [Inr (Some [42])], calls =
       [WaiterOn ''invite.conduit_updated'' (conduit_updated_filter ''org'' 0),
        ConduitTalk ''org'' None 0 STATE_1_WAIT_PEERS [1] (Inl InvitationNotFoundError),
        WaiterExit]\<rparr>)"
    apply (subst conduit_exchange_subscribes_talks_then_listens[THEN conjunct2])
    apply (simp add: scripted_backend_def)
    done
qed

text \<open>
  Without a wake-up after the talk the exchange does not return, whatever the context
  returned by the talk holds.
\<close>

lemma conduit_exchange_blocked:
  assumes "conduit_talk_impl self organization_id greeter token state payload
             (waiter_on_impl self ''invite.conduit_updated''
                (conduit_updated_filter organization_id token) (world s)) = (Inr ctx, w)"
    and "wait_impl self w = None"
  shows "conduit_exchange self organization_id greeter token state payload s = None"
  using assms
  by (simp add: conduit_exchange_def conduit_exchange_loop.simps backend_ops)

text \<open>
  If, from the world the talk leaves, every listen that follows a wake-up gives
  \<^verbatim>\<open>None\<close>, the exchange does not return: \<open>I\<close> is an invariant of the worlds met.
\<close>

lemma conduit_exchange_never_returns:
  assumes talk: "conduit_talk_impl self organization_id greeter token state payload
             (waiter_on_impl self ''invite.conduit_updated''
                (conduit_updated_filter organization_id token) (world s)) = (Inr ctx, w1)"
    and init: "I w1"
    and step: "\<And>w w'. I w \<Longrightarrow> wait_impl self w = Some w' \<Longrightarrow>
            fst (conduit_listen_impl self ctx (clear_impl self w')) = Inr None
            \<and> I (snd (conduit_listen_impl self ctx (clear_impl self w')))"
  shows "conduit_exchange self organization_id greeter token state payload s = None"
proof -
  define s1 where "s1 = \<lparr>world = w1, calls = calls s @
     [WaiterOn ''invite.conduit_updated'' (conduit_updated_filter organization_id token),
      ConduitTalk organization_id greeter token state payload (Inr ctx)]\<rparr>"
  have "conduit_exchange_loop self ctx s1 = None"
  proof (cases "conduit_exchange_loop self ctx s1")
    case (Some y)
    from conduit_exchange_loop_silent[OF Some, of I] init step show ?thesis
      by (auto simp: s1_def)
  qed simp
  with talk show ?thesis
    by (simp add: conduit_exchange_def backend_ops s1_def)
qed

text \<open>
  C10. Whenever \<^verbatim>\<open>conduit_exchange\<close> returns a payload, whatever the context \<open>ctx\<close>
  returned by the talk holds in \<^verbatim>\<open>peer_payload\<close>: after the talk come \<open>n\<close> idle turns,
  then a wait of the backend that returns, a clear and a listen of the backend on
  \<open>ctx\<close>, and the payload returned is the one this listen gives. In the log the call that
  follows the talk is a wait, so a wait precedes the first listen, and the last call before
  the exit is that listen.
\<close>

theorem conduit_exchange_returns_what_listen_gave:
  assumes "conduit_exchange self organization_id greeter token state payload s
             = Some (Inr peer_payload, s')"
  shows "\<exists>ctx w1 n w2 w3 w4 turns.
           conduit_talk_impl self organization_id greeter token state payload
             (waiter_on_impl self ''invite.conduit_updated''
                (conduit_updated_filter organization_id token) (world s)) = (Inr ctx, w1)
           \<and> idle_turns self ctx n w1 = Some w2
           \<and> wait_impl self w2 = Some w3
           \<and> conduit_listen_impl self ctx (clear_impl self w3) = (Inr (Some peer_payload), w4)
           \<and> world s' = exit_impl self w4
           \<and> calls s' = calls s
               @ [WaiterOn ''invite.conduit_updated'' (conduit_updated_filter organization_id token),
                  ConduitTalk organization_id greeter token state payload (Inr ctx),
                  WaiterWait]
               @ turns @ [ConduitListen ctx (Inr (Some peer_payload)), WaiterExit]"
proof -
  obtain talked w1 where ti: "conduit_talk_impl self organization_id greeter token state payload
             (waiter_on_impl self ''invite.conduit_updated''
                (conduit_updated_filter organization_id token) (world s)) = (talked, w1)"
    by (cases "conduit_talk_impl self organization_id greeter token state payload
             (waiter_on_impl self ''invite.conduit_updated''
                (conduit_updated_filter organization_id token) (world s))")
  from assms[unfolded conduit_exchange_returns_iff ti]
  obtain ctx n w2 w3 w4 where talked: "talked = Inr ctx"
    and i: "idle_turns self ctx n w1 = Some w2"
    and w: "wait_impl self w2 = Some w3"
    and l: "conduit_listen_impl self ctx (clear_impl self w3) = (Inr (Some peer_payload), w4)"
    and s': "s' = \<lparr>world = exit_impl self w4,
                      calls = calls s
                        @ [WaiterOn ''invite.conduit_updated''
                             (conduit_updated_filter organization_id token),
                           ConduitTalk organization_id greeter token state payload (Inr ctx)]
                        @ concat (replicate n
                                    [WaiterWait, WaiterClear, ConduitListen ctx (Inr None)])
                        @ [WaiterWait, WaiterClear, ConduitListen ctx (Inr (Some peer_payload)),
                           WaiterExit]\<rparr>"
    by (cases talked) auto
  have "\<exists>mid. concat (replicate n [WaiterWait, WaiterClear, ConduitListen ctx (Inr None)])
                 @ [WaiterWait, WaiterClear, ConduitListen ctx (Inr (Some peer_payload)), WaiterExit]
               = WaiterWait # mid @ [ConduitListen ctx (Inr (Some peer_payload)), WaiterExit]"
  proof (cases n)
    case 0
    have "concat (replicate 0 [WaiterWait, WaiterClear, ConduitListen ctx (Inr None)])
                 @ [WaiterWait, WaiterClear, ConduitListen ctx (Inr (Some peer_payload)), WaiterExit]
               = WaiterWait # [WaiterClear] @ [ConduitListen ctx (Inr (Some peer_payload)), WaiterExit]"
      by simp
    with 0 show ?thesis by blast
  next
    case (Suc m)
    have "concat (replicate (Suc m) [WaiterWait, WaiterClear, ConduitListen ctx (Inr None)])
                 @ [WaiterWait, WaiterClear, ConduitListen ctx (Inr (Some peer_payload)), WaiterExit]
               = WaiterWait # ([WaiterClear, ConduitListen ctx (Inr None)]
                   @ concat (replicate m [WaiterWait, WaiterClear, ConduitListen ctx (Inr None)])
                   @ [WaiterWait, WaiterClear])
                 @ [ConduitListen ctx (Inr (Some peer_payload)), WaiterExit]"
      by simp
    with Suc show ?thesis by blast
  qed
  then obtain mid where "concat (replicate n [WaiterWait, WaiterClear, ConduitListen ctx (Inr None)])
                 @ [WaiterWait, WaiterClear, ConduitListen ctx (Inr (Some peer_payload)), WaiterExit]
               = WaiterWait # mid @ [ConduitListen ctx (Inr (Some peer_payload)), WaiterExit]"
    by blast
  with s' have "world s' = exit_impl self w4" and "calls s' = calls s
               @ [WaiterOn ''invite.conduit_updated'' (conduit_updated_filter organization_id token),
                  ConduitTalk organization_id greeter token state payload (Inr ctx),
                  WaiterWait]
               @ mid @ [ConduitListen ctx (Inr (Some peer_payload)), WaiterExit]"
    by simp_all
  with ti talked i w l show ?thesis by blast
qed

theorem conduit_exchange_returns_what_listen_gave_witness:
  "\<exists>s'. conduit_exchange (scripted_backend (Some [9])) ''org'' None 5 STATE_1_WAIT_PEERS [1]
            \<lparr>world = [Inr (Some [42])], calls = []\<rparr> = Some (Inr [42], s')
        \<and> (\<exists>ctx w1 n w2 w3 w4 turns.
             conduit_talk_impl (scripted_backend (Some [9])) ''org'' None 5 STATE_1_WAIT_PEERS [1]
               (waiter_on_impl (scripted_backend (Some [9])) ''invite.conduit_updated''
                  (conduit_updated_filter ''org'' 5) [Inr (Some [42])]) = (Inr ctx, w1)
             \<and> ctx_peer_payload ctx = Some [9]
             \<and> idle_turns (scripted_backend (Some [9])) ctx n w1 = Some w2
             \<and> wait_impl (scripted_backend (Some [9])) w2 = Some w3
             \<and> conduit_listen_impl (scripted_backend (Some [9])) ctx
                 (clear_impl (scripted_backend (Some [9])) w3) = (Inr (Some [42]), w4)
             \<and> world s' = exit_impl (scripted_backend (Some [9])) w4
             \<and> calls s' = []
               @ [WaiterOn ''invite.conduit_updated'' (conduit_updated_filter ''org'' 5),
                  ConduitTalk ''org'' None 5 STATE_1_WAIT_PEERS [1] (Inr ctx),
                  WaiterWait]
               @ turns @ [ConduitListen ctx (Inr (Some [42])), WaiterExit])"
proof -
  obtain s' where run: "conduit_exchange (scripted_backend (Some [9])) ''org'' None 5 STATE_1_WAIT_PEERS [1]
            \<lparr>world = [Inr (Some [42])], calls = []\<rparr> = Some (Inr [42], s')"
    by (simp add: conduit_exchange_def conduit_exchange_loop.simps backend_ops scripted_backend_def)
  from conduit_exchange_returns_what_listen_gave[OF run]
  obtain ctx w1 n w2 w3 w4 turns where
    t: "conduit_talk_impl (scripted_backend (Some [9])) ''org'' None 5 STATE_1_WAIT_PEERS [1]
               (waiter_on_impl (scripted_backend (Some [9])) ''invite.conduit_updated''
                  (conduit_updated_filter ''org'' 5) [Inr (Some [42])]) = (Inr ctx, w1)"
    and rest: "idle_turns (scripted_backend (Some [9])) ctx n w1 = Some w2"
      "wait_impl (scripted_backend (Some [9])) w2 = Some w3"
      "conduit_listen_impl (scripted_backend (Some [9])) ctx
                 (clear_impl (scripted_backend (Some [9])) w3) = (Inr (Some [42]), w4)"
      "world s' = exit_impl (scripted_backend (Some [9])) w4"
      "calls s' = []
               @ [WaiterOn ''invite.conduit_updated'' (conduit_updated_filter ''org'' 5),
                  ConduitTalk ''org'' None 5 STATE_1_WAIT_PEERS [1] (Inr ctx),
                  WaiterWait]
               @ turns @ [ConduitListen ctx (Inr (Some [42])), WaiterExit]"
    by auto
  from t have "ctx_peer_payload ctx = Some [9]"
    by (auto simp: scripted_backend_def)
  with t rest run show ?thesis by blast
qed

subsection \<open>No bound on the waiting\<close>

text \<open>
  C4, as amended. \<^verbatim>\<open>PEER_EVENT_MAX_WAIT\<close> is 300, and \<^verbatim>\<open>conduit_exchange\<close> does not
  read it: for every call whose talk returns a context and in which the peer never
  contributes (every listen that follows a wake-up gives \<^verbatim>\<open>None\<close>), the call does not
  return and raises nothing, neither a timeout nor a conduit error.
\<close>

theorem conduit_exchange_waits_without_bound:
  assumes "conduit_talk_impl self organization_id greeter token state payload
             (waiter_on_impl self ''invite.conduit_updated''
                (conduit_updated_filter organization_id token) (world s)) = (Inr ctx, w1)"
    and "I w1"
    and "\<And>w w'. I w \<Longrightarrow> wait_impl self w = Some w' \<Longrightarrow>
            fst (conduit_listen_impl self ctx (clear_impl self w')) = Inr None
            \<and> I (snd (conduit_listen_impl self ctx (clear_impl self w')))"
  shows "conduit_exchange self organization_id greeter token state payload s = None
         \<and> PEER_EVENT_MAX_WAIT = 300"
  using conduit_exchange_never_returns[of self organization_id greeter token state payload s ctx w1 I]
    assms
  by (simp add: PEER_EVENT_MAX_WAIT_def)

lemma silent_backend_never_contributes:
  "fst (conduit_listen_impl silent_backend ctx w) = Inr None"
  by (simp add: silent_backend_def)

lemma silent_backend_talk:
  "conduit_talk_impl silent_backend organization_id greeter token state payload w =
     (Inr \<lparr>ctx_organization_id = organization_id, ctx_greeter = greeter,
              ctx_token = token, ctx_state = state, ctx_payload = payload,
              ctx_peer_payload = None\<rparr>, w)"
  by (simp add: silent_backend_def)

text \<open>
  On \<open>silent_backend\<close> every wait returns and every listen gives \<^verbatim>\<open>None\<close>: the call
  has no outcome at all, so it does not fail with a timeout.
\<close>

theorem conduit_exchange_timeout_counterexample:
  "conduit_exchange silent_backend ''org'' (Some ''alice'') 5 STATE_1_WAIT_PEERS [1]
     \<lparr>world = 0, calls = []\<rparr> = None"
  by (rule conduit_exchange_never_returns[where I = "\<lambda>w. True", OF silent_backend_talk])
     (simp_all add: silent_backend_never_contributes)

theorem conduit_exchange_waits_without_bound_witness:
  "conduit_talk_impl silent_backend ''org'' None 5 STATE_4_COMMUNICATE [1, 2]
       (waiter_on_impl silent_backend ''invite.conduit_updated''
          (conduit_updated_filter ''org'' 5) 0)
     = (Inr \<lparr>ctx_organization_id = ''org'', ctx_greeter = None,
              ctx_token = 5, ctx_state = STATE_4_COMMUNICATE, ctx_payload = [1, 2],
              ctx_peer_payload = None\<rparr>, 0)
   \<and> (\<forall>w. wait_impl silent_backend w = Some (Suc w)
          \<and> conduit_listen_impl silent_backend
               \<lparr>ctx_organization_id = ''org'', ctx_greeter = None,
                ctx_token = 5, ctx_state = STATE_4_COMMUNICATE, ctx_payload = [1, 2],
                ctx_peer_payload = None\<rparr> (clear_impl silent_backend (Suc w)) = (Inr None, Suc w))
   \<and> conduit_exchange silent_backend ''org'' None 5 STATE_4_COMMUNICATE [1, 2]
        \<lparr>world = 0, calls = []\<rparr> = None
   \<and> PEER_EVENT_MAX_WAIT = 300"
proof -
  let ?ctx = "\<lparr>ctx_organization_id = ''org'', ctx_greeter = None,
              ctx_token = 5, ctx_state = STATE_4_COMMUNICATE, ctx_payload = [1, 2],
              ctx_peer_payload = None\<rparr>"
  have talk: "conduit_talk_impl silent_backend ''org'' None 5 STATE_4_COMMUNICATE [1, 2]
       (waiter_on_impl silent_backend ''invite.conduit_updated''
          (conduit_updated_filter ''org'' 5) (world \<lparr>world = 0, calls = []\<rparr>)) = (Inr ?ctx, 0)"
    by (simp add: silent_backend_def)
  have step: "\<And>w w'. True \<Longrightarrow> wait_impl silent_backend w = Some w' \<Longrightarrow>
            fst (conduit_listen_impl silent_backend ?ctx (clear_impl silent_backend w')) = Inr None
            \<and> True"
    by (simp add: silent_backend_def)
  from conduit_exchange_waits_without_bound[where I = "\<lambda>w. True", OF talk TrueI step]
  have "conduit_exchange silent_backend ''org'' None 5 STATE_4_COMMUNICATE [1, 2]
        \<lparr>world = 0, calls = []\<rparr> = None \<and> PEER_EVENT_MAX_WAIT = 300"
    by simp
  then show ?thesis
    by (simp add: silent_backend_def)
qed

subsection \<open>The replies of the conduit handlers\<close>
















subsection \<open>The two handlers that chain two exchanges\<close>

text \<open>
  C5, as amended. \<^verbatim>\<open>api_invite_2a_claimer_send_hashed_nonce\<close> makes an exchange at
  \<^verbatim>\<open>STATE_2_1_CLAIMER_HASHED_NONCE\<close> with the claimer's hashed nonce. If it raises, the
  reply is the status of the error and no second exchange is made. If it returns, its
  payload is dropped and a second exchange is made at \<^verbatim>\<open>STATE_2_2_GREETER_NONCE\<close> with the
  empty payload, from the very state the first one left; the reply is the status of its
  error or \<^verbatim>\<open>ok\<close> with the greeter nonce it returns. The request has no outcome when
  one of the exchanges made does not return. \<^verbatim>\<open>api_invite_2b_greeter_send_nonce\<close> does
  the same at \<^verbatim>\<open>STATE_2_2_GREETER_NONCE\<close> with the greeter nonce and then at
  \<^verbatim>\<open>STATE_2_3_CLAIMER_NONCE\<close> with the empty payload, and replies the claimer nonce.
\<close>

theorem chained_handlers_exchange_twice:
  "api_invite_2a_claimer_send_hashed_nonce self invited_ctx msg_claimer_hashed_nonce s =
       (case conduit_exchange self (invited_organization_id invited_ctx) None
               (invitation_token (invited_invitation invited_ctx)) STATE_2_1_CLAIMER_HASHED_NONCE msg_claimer_hashed_nonce s of
          None \<Rightarrow> None
        | Some (Inl e, s1) \<Rightarrow> Some (Dict [(''status'', Str (wire_status e))], s1)
        | Some (Inr discarded, s1) \<Rightarrow>
            (case conduit_exchange self (invited_organization_id invited_ctx) None
                    (invitation_token (invited_invitation invited_ctx)) STATE_2_2_GREETER_NONCE [] s1 of
               None \<Rightarrow> None
             | Some (Inl e, s2) \<Rightarrow> Some (Dict [(''status'', Str (wire_status e))], s2)
             | Some (Inr greeter_nonce, s2) \<Rightarrow>
                 Some (rep_dump invite_2a_claimer_send_hashed_nonce_serializer
                         [(''status'', Str ''ok''), (''greeter_nonce'', Bytes greeter_nonce)], s2)))
   \<and> api_invite_2b_greeter_send_nonce self auth_ctx msg_token msg_greeter_nonce s =
        (case conduit_exchange self (auth_organization_id auth_ctx) (Some (auth_user_id auth_ctx))
                msg_token STATE_2_2_GREETER_NONCE msg_greeter_nonce s of
           None \<Rightarrow> None
         | Some (Inl e, s1) \<Rightarrow> Some (Dict [(''status'', Str (wire_status e))], s1)
         | Some (Inr discarded, s1) \<Rightarrow>
             (case conduit_exchange self (auth_organization_id auth_ctx) (Some (auth_user_id auth_ctx))
                     msg_token STATE_2_3_CLAIMER_NONCE [] s1 of
                None \<Rightarrow> None
              | Some (Inl e, s2) \<Rightarrow> Some (Dict [(''status'', Str (wire_status e))], s2)
              | Some (Inr claimer_nonce, s2) \<Rightarrow>
                  Some (rep_dump invite_2b_greeter_send_nonce_serializer
                          [(''status'', Str ''ok''), (''claimer_nonce'', Bytes claimer_nonce)], s2)))"
  by (auto simp: api_invite_2a_claimer_send_hashed_nonce_def
        api_invite_2b_greeter_send_nonce_def
      split: option.splits sum.splits InvitationError.splits)

text \<open>
  A request whose first exchange raises: one exchange is in the log, not two.
\<close>

theorem chained_handlers_exchange_twice_counterexample:
  "api_invite_2a_claimer_send_hashed_nonce (scripted_backend None)
     \<lparr>invited_organization_id = ''org'',
          invited_invitation = DeviceInvitation ''alice'' None 0 0 IDLE\<rparr>
     [1, 2] \<lparr>world = [Inr (Some [10]), Inr (Some [20])], calls = []\<rparr>
   = Some (Dict [(''status'', Str ''not_found'')],
           \<lparr>world = [Inr (Some [10]), Inr (Some [20])],
            calls =
              [WaiterOn ''invite.conduit_updated'' (conduit_updated_filter ''org'' 0),
               ConduitTalk ''org'' None 0 STATE_2_1_CLAIMER_HASHED_NONCE [1, 2]
                 (Inl InvitationNotFoundError),
               WaiterExit]\<rparr>)"
  by (simp add: api_invite_2a_claimer_send_hashed_nonce_def
        conduit_exchange_def conduit_exchange_loop.simps backend_ops scripted_backend_def)

text \<open>Two requests whose exchanges both return: the two exchanges follow each other.\<close>

theorem chained_handlers_exchange_twice_witness:
  "api_invite_2a_claimer_send_hashed_nonce (scripted_backend None)
     \<lparr>invited_organization_id = ''org'',
          invited_invitation = DeviceInvitation ''alice'' None 5 0 IDLE\<rparr>
     [1, 2] \<lparr>world = [Inr (Some [10]), Inr None, Inr (Some [20])], calls = []\<rparr>
   = Some (rep_dump invite_2a_claimer_send_hashed_nonce_serializer
             [(''status'', Str ''ok''), (''greeter_nonce'', Bytes [20])],
           \<lparr>world = [],
            calls =
              [WaiterOn ''invite.conduit_updated'' (conduit_updated_filter ''org'' 5),
               ConduitTalk ''org'' None 5 STATE_2_1_CLAIMER_HASHED_NONCE [1, 2]
                 (Inr \<lparr>ctx_organization_id = ''org'', ctx_greeter = None, ctx_token = 5,
             ctx_state = STATE_2_1_CLAIMER_HASHED_NONCE, ctx_payload = [1, 2],
             ctx_peer_payload = None\<rparr>),
               WaiterWait, WaiterClear,
               ConduitListen
                 \<lparr>ctx_organization_id = ''org'', ctx_greeter = None, ctx_token = 5,
             ctx_state = STATE_2_1_CLAIMER_HASHED_NONCE, ctx_payload = [1, 2],
             ctx_peer_payload = None\<rparr>
                 (Inr (Some [10])),
               WaiterExit,
               WaiterOn ''invite.conduit_updated'' (conduit_updated_filter ''org'' 5),
               ConduitTalk ''org'' None 5 STATE_2_2_GREETER_NONCE []
                 (Inr \<lparr>ctx_organization_id = ''org'', ctx_greeter = None, ctx_token = 5,
             ctx_state = STATE_2_2_GREETER_NONCE, ctx_payload = [],
             ctx_peer_payload = None\<rparr>),
               WaiterWait, WaiterClear,
               ConduitListen
                 \<lparr>ctx_organization_id = ''org'', ctx_greeter = None, ctx_token = 5,
             ctx_state = STATE_2_2_GREETER_NONCE, ctx_payload = [],
             ctx_peer_payload = None\<rparr>
                 (Inr None),
               WaiterWait, WaiterClear,
               ConduitListen
                 \<lparr>ctx_organization_id = ''org'', ctx_greeter = None, ctx_token = 5,
             ctx_state = STATE_2_2_GREETER_NONCE, ctx_payload = [],
             ctx_peer_payload = None\<rparr>
                 (Inr (Some [20])),
               WaiterExit]\<rparr>)
   \<and> api_invite_2b_greeter_send_nonce (scripted_backend None)
     \<lparr>auth_organization_id = ''org'', auth_user_id = ''alice'', auth_profile = STANDARD\<rparr>
     5 [3, 4] \<lparr>world = [Inr (Some []), Inr (Some [30])], calls = []\<rparr>
   = Some (rep_dump invite_2b_greeter_send_nonce_serializer
             [(''status'', Str ''ok''), (''claimer_nonce'', Bytes [30])],
           \<lparr>world = [],
            calls =
              [WaiterOn ''invite.conduit_updated'' (conduit_updated_filter ''org'' 5),
               ConduitTalk ''org'' (Some ''alice'') 5 STATE_2_2_GREETER_NONCE [3, 4]
                 (Inr \<lparr>ctx_organization_id = ''org'', ctx_greeter = Some ''alice'', ctx_token = 5,
             ctx_state = STATE_2_2_GREETER_NONCE, ctx_payload = [3, 4],
             ctx_peer_payload = None\<rparr>),
               WaiterWait, WaiterClear,
               ConduitListen
                 \<lparr>ctx_organization_id = ''org'', ctx_greeter = Some ''alice'', ctx_token = 5,
             ctx_state = STATE_2_2_GREETER_NONCE, ctx_payload = [3, 4],
             ctx_peer_payload = None\<rparr>
                 (Inr (Some [])),
               WaiterExit,
               WaiterOn ''invite.conduit_updated'' (conduit_updated_filter ''org'' 5),
               ConduitTalk ''org'' (Some ''alice'') 5 STATE_2_3_CLAIMER_NONCE []
                 (Inr \<lparr>ctx_organization_id = ''org'', ctx_greeter = Some ''alice'', ctx_token = 5,
             ctx_state = STATE_2_3_CLAIMER_NONCE, ctx_payload = [],
             ctx_peer_payload = None\<rparr>),
               WaiterWait, WaiterClear,
               ConduitListen
                 \<lparr>ctx_organization_id = ''org'', ctx_greeter = Some ''alice'', ctx_token = 5,
             ctx_state = STATE_2_3_CLAIMER_NONCE, ctx_payload = [],
             ctx_peer_payload = None\<rparr>
                 (Inr (Some [30])),
               WaiterExit]\<rparr>)"
proof (intro conjI)
  show "api_invite_2a_claimer_send_hashed_nonce (scripted_backend None)
     \<lparr>invited_organization_id = ''org'',
          invited_invitation = DeviceInvitation ''alice'' None 5 0 IDLE\<rparr>
     [1, 2] \<lparr>world = [Inr (Some [10]), Inr None, Inr (Some [20])], calls = []\<rparr>
   = Some (rep_dump invite_2a_claimer_send_hashed_nonce_serializer
             [(''status'', Str ''ok''), (''greeter_nonce'', Bytes [20])],
           \<lparr>world = [],
            calls =
              [WaiterOn ''invite.conduit_updated'' (conduit_updated_filter ''org'' 5),
               ConduitTalk ''org'' None 5 STATE_2_1_CLAIMER_HASHED_NONCE [1, 2]
                 (Inr \<lparr>ctx_organization_id = ''org'', ctx_greeter = None, ctx_token = 5,
             ctx_state = STATE_2_1_CLAIMER_HASHED_NONCE, ctx_payload = [1, 2],
             ctx_peer_payload = None\<rparr>),
               WaiterWait, WaiterClear,
               ConduitListen
                 \<lparr>ctx_organization_id = ''org'', ctx_greeter = None, ctx_token = 5,
             ctx_state = STATE_2_1_CLAIMER_HASHED_NONCE, ctx_payload = [1, 2],
             ctx_peer_payload = None\<rparr>
                 (Inr (Some [10])),
               WaiterExit,
               WaiterOn ''invite.conduit_updated'' (conduit_updated_filter ''org'' 5),
               ConduitTalk ''org'' None 5 STATE_2_2_GREETER_NONCE []
                 (Inr \<lparr>ctx_organization_id = ''org'', ctx_greeter = None, ctx_token = 5,
             ctx_state = STATE_2_2_GREETER_NONCE, ctx_payload = [],
             ctx_peer_payload = None\<rparr>),
               WaiterWait, WaiterClear,
               ConduitListen
                 \<lparr>ctx_organization_id = ''org'', ctx_greeter = None, ctx_token = 5,
             ctx_state = STATE_2_2_GREETER_NONCE, ctx_payload = [],
             ctx_peer_payload = None\<rparr>
                 (Inr None),
               WaiterWait, WaiterClear,
               ConduitListen
                 \<lparr>ctx_organization_id = ''org'', ctx_greeter = None, ctx_token = 5,
             ctx_state = STATE_2_2_GREETER_NONCE, ctx_payload = [],
             ctx_peer_payload = None\<rparr>
                 (Inr (Some [20])),
               WaiterExit]\<rparr>)"
    by (simp add: chained_handlers_exchange_twice[THEN conjunct1]
          conduit_exchange_def conduit_exchange_loop.simps backend_ops scripted_backend_def)
next
  show "api_invite_2b_greeter_send_nonce (scripted_backend None)
     \<lparr>auth_organization_id = ''org'', auth_user_id = ''alice'', auth_profile = STANDARD\<rparr>
     5 [3, 4] \<lparr>world = [Inr (Some []), Inr (Some [30])], calls = []\<rparr>
   = Some (rep_dump invite_2b_greeter_send_nonce_serializer
             [(''status'', Str ''ok''), (''claimer_nonce'', Bytes [30])],
           \<lparr>world = [],
            calls =
              [WaiterOn ''invite.conduit_updated'' (conduit_updated_filter ''org'' 5),
               ConduitTalk ''org'' (Some ''alice'') 5 STATE_2_2_GREETER_NONCE [3, 4]
                 (Inr \<lparr>ctx_organization_id = ''org'', ctx_greeter = Some ''alice'', ctx_token = 5,
             ctx_state = STATE_2_2_GREETER_NONCE, ctx_payload = [3, 4],
             ctx_peer_payload = None\<rparr>),
               WaiterWait, WaiterClear,
               ConduitListen
                 \<lparr>ctx_organization_id = ''org'', ctx_greeter = Some ''alice'', ctx_token = 5,
             ctx_state = STATE_2_2_GREETER_NONCE, ctx_payload = [3, 4],
             ctx_peer_payload = None\<rparr>
                 (Inr (Some [])),
               WaiterExit,
               WaiterOn ''invite.conduit_updated'' (conduit_updated_filter ''org'' 5),
               ConduitTalk ''org'' (Some ''alice'') 5 STATE_2_3_CLAIMER_NONCE []
                 (Inr \<lparr>ctx_organization_id = ''org'', ctx_greeter = Some ''alice'', ctx_token = 5,
             ctx_state = STATE_2_3_CLAIMER_NONCE, ctx_payload = [],
             ctx_peer_payload = None\<rparr>),
               WaiterWait, WaiterClear,
               ConduitListen
                 \<lparr>ctx_organization_id = ''org'', ctx_greeter = Some ''alice'', ctx_token = 5,
             ctx_state = STATE_2_3_CLAIMER_NONCE, ctx_payload = [],
             ctx_peer_payload = None\<rparr>
                 (Inr (Some [30])),
               WaiterExit]\<rparr>)"
    by (simp add: chained_handlers_exchange_twice[THEN conjunct2]
          conduit_exchange_def conduit_exchange_loop.simps backend_ops scripted_backend_def)
qed

subsection \<open>invite_new\<close>

text \<open>
  C7. For an \<^verbatim>\<open>invite_new\<close> request of the USER kind: a caller whose profile is not
  ADMIN gets the reply \<^verbatim>\<open>not_allowed\<close> and the state is returned as it was, nothing
  having been called; an ADMIN caller with \<^verbatim>\<open>send_email\<close> set gets
  \<^verbatim>\<open>not_implemented\<close>, likewise; otherwise \<^verbatim>\<open>new_for_user\<close> is called once, with
  the caller's organization and user and the claimer email, and the reply is
  \<^verbatim>\<open>ok\<close> with the token of the invitation it returned.
\<close>

theorem api_invite_new_user:
  "(auth_profile client_ctx \<noteq> ADMIN \<longrightarrow>
      api_invite_new self client_ctx USER msg_claimer_email msg_send_email s
        = (rep_dump invite_new_serializer [(''status'', Str ''not_allowed'')], s))
   \<and> (auth_profile client_ctx = ADMIN \<and> msg_send_email \<longrightarrow>
      api_invite_new self client_ctx USER msg_claimer_email msg_send_email s
        = (rep_dump invite_new_serializer [(''status'', Str ''not_implemented'')], s))
   \<and> (auth_profile client_ctx = ADMIN \<and> \<not> msg_send_email \<longrightarrow>
      (\<exists>invitation w.
         new_for_user_impl self (auth_organization_id client_ctx) (auth_user_id client_ctx)
           msg_claimer_email (world s) = (invitation, w)
         \<and> api_invite_new self client_ctx USER msg_claimer_email msg_send_email s
             = (rep_dump invite_new_serializer
                  [(''status'', Str ''ok''), (''token'', Token (invitation_token invitation))],
                \<lparr>world = w,
                 calls = calls s @ [NewForUser (auth_organization_id client_ctx)
                                      (auth_user_id client_ctx) msg_claimer_email invitation]\<rparr>)))"
  by (auto simp: api_invite_new_def new_for_user_def split: prod.splits)

theorem api_invite_new_user_witness:
  "(auth_profile \<lparr>auth_organization_id = ''org'', auth_user_id = ''bob'', auth_profile = STANDARD\<rparr> \<noteq> ADMIN
    \<and> api_invite_new (scripted_backend None)
         \<lparr>auth_organization_id = ''org'', auth_user_id = ''bob'', auth_profile = STANDARD\<rparr>
         USER ''zack@example.com'' False \<lparr>world = [], calls = []\<rparr>
        = (rep_dump invite_new_serializer [(''status'', Str ''not_allowed'')],
           \<lparr>world = [], calls = []\<rparr>))
   \<and> (auth_profile \<lparr>auth_organization_id = ''org'', auth_user_id = ''alice'', auth_profile = ADMIN\<rparr> = ADMIN
    \<and> api_invite_new (scripted_backend None)
         \<lparr>auth_organization_id = ''org'', auth_user_id = ''alice'', auth_profile = ADMIN\<rparr>
         USER ''zack@example.com'' True \<lparr>world = [], calls = []\<rparr>
        = (rep_dump invite_new_serializer [(''status'', Str ''not_implemented'')],
           \<lparr>world = [], calls = []\<rparr>))
   \<and> (new_for_user_impl (scripted_backend None) ''org'' ''alice'' ''zack@example.com'' []
        = (UserInvitation ''alice'' None ''zack@example.com'' 7 0 IDLE, [])
    \<and> api_invite_new (scripted_backend None)
         \<lparr>auth_organization_id = ''org'', auth_user_id = ''alice'', auth_profile = ADMIN\<rparr>
         USER ''zack@example.com'' False \<lparr>world = [], calls = []\<rparr>
        = (rep_dump invite_new_serializer [(''status'', Str ''ok''), (''token'', Token 7)],
           \<lparr>world = [],
            calls = [NewForUser ''org'' ''alice'' ''zack@example.com''
                       (UserInvitation ''alice'' None ''zack@example.com'' 7 0 IDLE)]\<rparr>))"
  using
    api_invite_new_user[of "\<lparr>auth_organization_id = ''org'', auth_user_id = ''bob'', auth_profile = STANDARD\<rparr>"
      "scripted_backend None" "''zack@example.com''" False "\<lparr>world = [], calls = []\<rparr>"]
    api_invite_new_user[of "\<lparr>auth_organization_id = ''org'', auth_user_id = ''alice'', auth_profile = ADMIN\<rparr>"
      "scripted_backend None" "''zack@example.com''" True "\<lparr>world = [], calls = []\<rparr>"]
    api_invite_new_user[of "\<lparr>auth_organization_id = ''org'', auth_user_id = ''alice'', auth_profile = ADMIN\<rparr>"
      "scripted_backend None" "''zack@example.com''" False "\<lparr>world = [], calls = []\<rparr>"]
  by (simp add: scripted_backend_def)

text \<open>
  C9. An \<^verbatim>\<open>invite_new\<close> request of the DEVICE kind reads neither the profile nor
  \<^verbatim>\<open>send_email\<close>: for every caller and every value of the flag, \<^verbatim>\<open>new_for_device\<close> is
  called once with the caller's organization and user, and the reply is \<^verbatim>\<open>ok\<close> with
  the token of the invitation it returned. A reply whose status is \<^verbatim>\<open>not_allowed\<close> or
  \<^verbatim>\<open>not_implemented\<close> is a reply to a request of the USER kind.
\<close>

theorem api_invite_new_device:
  "(\<exists>invitation w.
      new_for_device_impl self (auth_organization_id client_ctx) (auth_user_id client_ctx)
        (world s) = (invitation, w)
      \<and> api_invite_new self client_ctx DEVICE msg_claimer_email msg_send_email s
          = (rep_dump invite_new_serializer
               [(''status'', Str ''ok''), (''token'', Token (invitation_token invitation))],
             \<lparr>world = w,
              calls = calls s @ [NewForDevice (auth_organization_id client_ctx)
                                   (auth_user_id client_ctx) invitation]\<rparr>))
   \<and> (map_of (reply_dict (fst (api_invite_new self client_ctx msg_type msg_claimer_email
                                 msg_send_email s))) ''status''
        \<in> {Some (Str ''not_allowed''), Some (Str ''not_implemented'')}
      \<longrightarrow> msg_type = USER)"
  by (cases msg_type)
     (auto simp: api_invite_new_def new_for_device_def new_for_user_def split: prod.splits)

theorem api_invite_new_device_witness:
  "(new_for_device_impl (scripted_backend None) ''org'' ''mallory'' []
        = (DeviceInvitation ''mallory'' None 8 0 IDLE, [])
    \<and> api_invite_new (scripted_backend None)
         \<lparr>auth_organization_id = ''org'', auth_user_id = ''mallory'', auth_profile = OUTSIDER\<rparr>
         DEVICE '''' True \<lparr>world = [], calls = []\<rparr>
        = (rep_dump invite_new_serializer [(''status'', Str ''ok''), (''token'', Token 8)],
           \<lparr>world = [],
            calls = [NewForDevice ''org'' ''mallory'' (DeviceInvitation ''mallory'' None 8 0 IDLE)]\<rparr>))
   \<and> (map_of (reply_dict (fst (api_invite_new (scripted_backend None)
         \<lparr>auth_organization_id = ''org'', auth_user_id = ''mallory'', auth_profile = OUTSIDER\<rparr>
         USER ''zack@example.com'' True \<lparr>world = [], calls = []\<rparr>))) ''status''
        \<in> {Some (Str ''not_allowed''), Some (Str ''not_implemented'')}
    \<and> USER = USER)"
  using
    api_invite_new_device[of "scripted_backend None"
      "\<lparr>auth_organization_id = ''org'', auth_user_id = ''mallory'', auth_profile = OUTSIDER\<rparr>"
      "\<lparr>world = [], calls = []\<rparr>" "''''" True DEVICE]
    api_invite_new_device[of "scripted_backend None"
      "\<lparr>auth_organization_id = ''org'', auth_user_id = ''mallory'', auth_profile = OUTSIDER\<rparr>"
      "\<lparr>world = [], calls = []\<rparr>" "''zack@example.com''" True USER]
  by (simp add: scripted_backend_def api_invite_new_def)

subsection \<open>invite_info\<close>

text \<open>
  C6. \<^verbatim>\<open>api_invite_info\<close> answers from the invitation held by the client context and
  calls nothing on the component: the state is returned as it was and the reply has no
  \<^verbatim>\<open>status\<close> key. On a backend whose \<^verbatim>\<open>info\<close> raises
  \<^verbatim>\<open>InvitationAlreadyDeletedError\<close> for the token, the request of a claimer whose
  context was filled before the deletion is answered with the invitation details, not with
  \<^verbatim>\<open>already_deleted\<close>.
\<close>

theorem api_invite_info_of_deleted_invitation:
  "snd (api_invite_info self client_ctx s) = s
   \<and> map_of (reply_dict (fst (api_invite_info self client_ctx s))) ''status'' = None
   \<and> info (scripted_backend None) ''org'' 8 \<lparr>world = [], calls = []\<rparr>
       = (Inl InvitationAlreadyDeletedError,
          \<lparr>world = [], calls = [Info ''org'' 8 (Inl InvitationAlreadyDeletedError)]\<rparr>)
   \<and> api_invite_info (scripted_backend None)
        \<lparr>invited_organization_id = ''org'',
         invited_invitation = DeviceInvitation ''alice'' None 8 0 IDLE\<rparr>
        \<lparr>world = [], calls = []\<rparr>
       = (rep_dump invite_info_serializer
            [(''type'', Type DEVICE), (''greeter_user_id'', User ''alice''),
             (''greeter_human_handle'', Handle None)],
          \<lparr>world = [], calls = []\<rparr>)"
  by (simp add: api_invite_info_def info_def scripted_backend_def Let_def split: Invitation.splits)

subsection \<open>The claimers ready\<close>

lemma getitem_on_status_changed:
  "getitem (on_status_changed claimers event organization_id greeter token status) org =
     (if org = organization_id then
        (if status = READY then insert token (getitem claimers org)
         else getitem claimers org - {token})
      else getitem claimers org)"
  by (simp add: on_status_changed_def getitem_def)

lemma process_events_latest_status:
  "(tok \<in> getitem (process_events claimers events) org) =
     (case latest_status org tok events of
        None \<Rightarrow> tok \<in> getitem claimers org
      | Some status \<Rightarrow> status = READY)"
proof (induction events arbitrary: claimers)
  case Nil
  show ?case by simp
next
  case (Cons ev events)
  obtain organization_id greeter token status where ev: "ev = (organization_id, greeter, token, status)"
    by (cases ev)
  show ?case
  proof (cases "latest_status org tok events")
    case None
    with Cons.IH[of "on_status_changed claimers ''invite.status_changed'' organization_id greeter token status"]
    show ?thesis
      by (auto simp: ev getitem_on_status_changed)
  next
    case (Some later)
    with Cons.IH[of "on_status_changed claimers ''invite.status_changed'' organization_id greeter token status"]
    show ?thesis
      by (simp add: ev)
  qed
qed

text \<open>
  C8. One \<^verbatim>\<open>invite.status_changed\<close> event changes the set of its organization only:
  the status READY inserts the token of the event, any other status removes it. Hence,
  starting from the empty dict of \<^verbatim>\<open>__init__\<close>, after any sequence of events a token
  is in the set of an organization if and only if the most recent event about that
  organization and token has the status READY.
\<close>

theorem claimers_ready_follow_latest_status:
  "getitem (on_status_changed claimers event organization_id greeter token status) org =
     (if org = organization_id then
        (if status = READY then insert token (getitem claimers org)
         else getitem claimers org - {token})
      else getitem claimers org)
   \<and> (tok \<in> getitem (process_events Map.empty events) org)
       = (latest_status org tok events = Some READY)"
proof -
  have "(tok \<in> getitem (process_events Map.empty events) org)
       = (latest_status org tok events = Some READY)"
    using process_events_latest_status[of tok Map.empty events org]
    by (simp add: getitem_def split: option.splits)
  with getitem_on_status_changed show ?thesis by blast
qed

subsection \<open>The NEXT table\<close>

text \<open>
  C2. \<^verbatim>\<open>NEXT_CONDUIT_STATE\<close> has an entry for each of the seven conduit states, it sends
  each state to its successor in the order 1, 2_1, 2_2, 2_3, 3_1, 3_2, 4, and it sends
  \<^verbatim>\<open>STATE_4_COMMUNICATE\<close> to itself, which is the only state mapped to itself.
\<close>

theorem NEXT_CONDUIT_STATE_table:
  "dom NEXT_CONDUIT_STATE = UNIV
   \<and> NEXT_CONDUIT_STATE STATE_1_WAIT_PEERS = Some STATE_2_1_CLAIMER_HASHED_NONCE
   \<and> NEXT_CONDUIT_STATE STATE_2_1_CLAIMER_HASHED_NONCE = Some STATE_2_2_GREETER_NONCE
   \<and> NEXT_CONDUIT_STATE STATE_2_2_GREETER_NONCE = Some STATE_2_3_CLAIMER_NONCE
   \<and> NEXT_CONDUIT_STATE STATE_2_3_CLAIMER_NONCE = Some STATE_3_1_CLAIMER_TRUST
   \<and> NEXT_CONDUIT_STATE STATE_3_1_CLAIMER_TRUST = Some STATE_3_2_GREETER_TRUST
   \<and> NEXT_CONDUIT_STATE STATE_3_2_GREETER_TRUST = Some STATE_4_COMMUNICATE
   \<and> NEXT_CONDUIT_STATE STATE_4_COMMUNICATE = Some STATE_4_COMMUNICATE
   \<and> (\<forall>s. (NEXT_CONDUIT_STATE s = Some s) = (s = STATE_4_COMMUNICATE))"
proof -
  have total: "dom NEXT_CONDUIT_STATE = UNIV"
  proof -
    have "s \<in> dom NEXT_CONDUIT_STATE" for s
      by (cases s) (simp_all add: NEXT_CONDUIT_STATE_def)
    then show ?thesis by blast
  qed
  have loop: "(NEXT_CONDUIT_STATE s = Some s) = (s = STATE_4_COMMUNICATE)" for s
    by (cases s) (simp_all add: NEXT_CONDUIT_STATE_def)
  show ?thesis
    using total loop by (simp add: NEXT_CONDUIT_STATE_def)
qed

end
